theory Spec2Isabelle
  imports Main
begin

section \<open>MMessenger: the storage adapter and the conversation store\<close>

text \<open>
  A shallow embedding of the classes \<^verbatim>\<open>CloudStorageManager\<close>, \<^verbatim>\<open>StorageManager\<close> and
  \<^verbatim>\<open>ChatManager\<close>, and of the two methods of \<^verbatim>\<open>MMessengerApp\<close> that persist a new chat.

  \<^item> JavaScript objects are records. A property that an object may lack is an
    \<open>option\<close>: \<open>None\<close> is \<^verbatim>\<open>undefined\<close> (or \<^verbatim>\<open>null\<close>).
  \<^item> A JavaScript string is a \<open>string\<close>: the bytes of its UTF-8 encoding. The literal
    of the Favorites chat is Cyrillic; it is written as those bytes.
  \<^item> Every method that mutates \<^verbatim>\<open>this\<close> takes the object and returns it updated.
  \<^item> \<^verbatim>\<open>throw\<close> is the left injection of a sum. A method that mutates \<^verbatim>\<open>this\<close> before
    it throws returns the mutated object beside the error.
  \<^item> \<^verbatim>\<open>new Date()\<close> and \<^verbatim>\<open>Date.now()\<close> read a clock; the reading is an argument
    \<open>now\<close>, one per call of a method.
\<close>

subsection \<open>Data\<close>

text \<open>
  \<^verbatim>\<open>{key, username, addedAt}\<close> in a friends list and \<^verbatim>\<open>{key, username, sentAt}\<close> in a
  request list: \<open>eventAt\<close> is the third property under either label.
\<close>

record friendRef =
  key :: string
  username :: string
  eventAt :: string

record message =
  msg_author :: string
  msg_text :: string
  msg_time :: string
  msg_timestamp :: string
  msg_type :: string
  msg_fileData :: "string option"
  msg_fileName :: "string option"

record chat =
  chat_id :: "int option"
  chat_name :: "string option"
  chat_description :: "string option"
  chat_type :: "string option"
  chat_participants :: "string list option"
  chat_messages :: "message list option"
  chat_createdAt :: "string option"

text \<open>
  The object that \<^verbatim>\<open>saveChats\<close> serialises and \<^verbatim>\<open>JSON.parse\<close> gives back. An element
  of a stored chat array may be \<^verbatim>\<open>null\<close> (the filter of \<^verbatim>\<open>loadChats\<close> tests
  \<^verbatim>\<open>chat && ...\<close>), so the array is a list of \<open>chat option\<close>.
\<close>

record userData =
  stored_username :: "string option"
  stored_chats :: "chat option list option"
  stored_friends :: "friendRef list option"
  stored_friendRequests :: "friendRef list option"
  stored_sentFriendRequests :: "friendRef list option"

text \<open>
  A value of \<^verbatim>\<open>localStorage\<close>: \<open>Parsed d\<close> is a string that \<^verbatim>\<open>JSON.parse\<close> turns into
  the object \<open>d\<close>; \<open>Unparsable\<close> is a string that is empty, that \<^verbatim>\<open>JSON.parse\<close> rejects,
  or that parses to a falsy value.
\<close>

datatype item = Unparsable | Parsed userData

text \<open>
  The browser's \<^verbatim>\<open>localStorage\<close>: its entries, and \<open>quota\<close>, which says of a key and an
  object whether \<^verbatim>\<open>setItem\<close> stores the serialised object or throws (the quota is
  exceeded).
\<close>

record localStorage =
  items :: "string \<rightharpoonup> item"
  quota :: "string \<Rightarrow> userData \<Rightarrow> bool"

datatype error = SaveFailed

record date =
  getTime :: int
  getHours :: nat
  getMinutes :: nat
  toISOString :: string

text \<open>The fields of a \<^verbatim>\<open>ChatManager\<close>; \<open>storage\<close> is the storage manager it was built on.\<close>

record chatManager =
  storage :: localStorage
  chats :: "chat list"
  friends :: "friendRef list"
  friendRequests :: "friendRef list"
  sentFriendRequests :: "friendRef list"

subsection \<open>JavaScript primitives\<close>

text \<open>Truthiness of a number property and of a string property.\<close>

definition truthy_num :: "int option \<Rightarrow> bool" where
  "truthy_num v = (case v of None \<Rightarrow> False | Some n \<Rightarrow> n \<noteq> 0)"

definition truthy_str :: "string option \<Rightarrow> bool" where
  "truthy_str v = (case v of None \<Rightarrow> False | Some s \<Rightarrow> s \<noteq> [])"

text \<open>\<^verbatim>\<open>a || b\<close> for an array property \<open>a\<close>: every array is truthy, the empty one too.\<close>

definition or_else :: "'a option \<Rightarrow> 'a \<Rightarrow> 'a" where
  "or_else v d = (case v of None \<Rightarrow> d | Some x \<Rightarrow> x)"

text \<open>
  \<^verbatim>\<open>String.prototype.trim\<close> strips the code points of WhiteSpace and LineTerminator from
  both ends. A \<open>string\<close> here is the UTF-8 encoding of the JavaScript string, so
  \<open>WHITE_SPACE\<close> lists the encodings of those code points: U+0009 to U+000D, U+0020,
  U+00A0, U+1680, U+2000 to U+200A, U+2028, U+2029, U+202F, U+205F, U+3000 and U+FEFF.
  The first byte of each encoding starts a code point and no encoding is the tail of
  another code point, so stripping byte sequences strips code points.
\<close>

definition WHITE_SPACE :: "string list" where
  "WHITE_SPACE =
     [[CHR 0x09], [CHR 0x0A], [CHR 0x0B], [CHR 0x0C], [CHR 0x0D], [CHR 0x20],
      [CHR 0xC2, CHR 0xA0],
      [CHR 0xE1, CHR 0x9A, CHR 0x80],
      [CHR 0xE2, CHR 0x80, CHR 0x80], [CHR 0xE2, CHR 0x80, CHR 0x81],
      [CHR 0xE2, CHR 0x80, CHR 0x82], [CHR 0xE2, CHR 0x80, CHR 0x83],
      [CHR 0xE2, CHR 0x80, CHR 0x84], [CHR 0xE2, CHR 0x80, CHR 0x85],
      [CHR 0xE2, CHR 0x80, CHR 0x86], [CHR 0xE2, CHR 0x80, CHR 0x87],
      [CHR 0xE2, CHR 0x80, CHR 0x88], [CHR 0xE2, CHR 0x80, CHR 0x89],
      [CHR 0xE2, CHR 0x80, CHR 0x8A],
      [CHR 0xE2, CHR 0x80, CHR 0xA8], [CHR 0xE2, CHR 0x80, CHR 0xA9],
      [CHR 0xE2, CHR 0x80, CHR 0xAF],
      [CHR 0xE2, CHR 0x81, CHR 0x9F],
      [CHR 0xE3, CHR 0x80, CHR 0x80],
      [CHR 0xEF, CHR 0xBB, CHR 0xBF]]"

text \<open>
  \<open>strip_one ws s\<close> removes the first sequence of \<open>ws\<close> that \<open>s\<close> starts with;
  \<open>strip_all ws s\<close> does so until \<open>s\<close> starts with none of them.
\<close>

fun strip_one :: "string list \<Rightarrow> string \<Rightarrow> string option" where
  "strip_one [] s = None"
| "strip_one (w # ws) s =
     (if w \<noteq> [] \<and> take (length w) s = w then Some (drop (length w) s) else strip_one ws s)"

function strip_all :: "string list \<Rightarrow> string \<Rightarrow> string" where
  "strip_all ws s = (case strip_one ws s of None \<Rightarrow> s | Some r \<Rightarrow> strip_all ws r)"
  by pat_completeness auto
termination
proof (relation "measure (\<lambda>(ws, s). length s)")
  show "wf (measure (\<lambda>(ws, s). length s))" by simp
next
  fix ws :: "string list" and s r :: string
  assume "strip_one ws s = Some r"
  then have "length r < length s"
  proof (induction ws)
    case Nil
    then show ?case by simp
  next
    case (Cons w ws)
    show ?case
    proof (cases "w \<noteq> [] \<and> take (length w) s = w")
      case True
      with Cons.prems have r: "r = drop (length w) s" by simp
      from True have "length w \<le> length s"
        by (metis length_take min.cobounded1)
      with True r show ?thesis by (cases w) auto
    next
      case False
      with Cons show ?thesis by auto
    qed
  qed
  then show "((ws, r), (ws, s)) \<in> measure (\<lambda>(ws, s). length s)" by simp
qed

declare strip_all.simps [simp del]

definition trim :: "string \<Rightarrow> string" where
  "trim s = rev (strip_all (map rev WHITE_SPACE) (rev (strip_all WHITE_SPACE s)))"

text \<open>\<^verbatim>\<open>xs.slice(-k)\<close>: the last \<open>k\<close> elements, all of them when there are fewer.\<close>

definition slice_last :: "nat \<Rightarrow> 'a list \<Rightarrow> 'a list" where
  "slice_last k xs = drop (length xs - k) xs"

text \<open>\<^verbatim>\<open>n.toString().padStart(2, '0')\<close> for a natural number.\<close>

fun toString_nat :: "nat \<Rightarrow> string" where
  "toString_nat n =
     (if n < 10 then [char_of (48 + n)]
      else toString_nat (n div 10) @ [char_of (48 + n mod 10)])"

declare toString_nat.simps [simp del]

definition padStart :: "nat \<Rightarrow> char \<Rightarrow> string \<Rightarrow> string" where
  "padStart n c s = replicate (n - length s) c @ s"

subsection \<open>CloudStorageManager and StorageManager\<close>

definition USER_KEY_PREFIX :: string where
  "USER_KEY_PREFIX = ''mmessenger_user_''"

text \<open>
  \<^verbatim>\<open>saveUserData\<close>: \<^verbatim>\<open>setItem\<close> inside \<^verbatim>\<open>try\<close>; the handler throws
  \<^verbatim>\<open>Error('Failed to save user data')\<close>. \<^verbatim>\<open>saveToCloud\<close> only logs.
\<close>

definition saveUserData :: "string \<Rightarrow> userData \<Rightarrow> localStorage \<Rightarrow> error + localStorage" where
  "saveUserData userKey d ls =
     (if quota ls (USER_KEY_PREFIX @ userKey) d
      then Inr (ls\<lparr>items := (items ls)(USER_KEY_PREFIX @ userKey \<mapsto> Parsed d)\<rparr>)
      else Inl SaveFailed)"

text \<open>\<^verbatim>\<open>loadUserData\<close>: \<^verbatim>\<open>null\<close> for a missing entry and for one that does not parse.\<close>

definition loadUserData :: "string \<Rightarrow> localStorage \<Rightarrow> userData option" where
  "loadUserData userKey ls =
     (case items ls (USER_KEY_PREFIX @ userKey) of
        None \<Rightarrow> None
      | Some Unparsable \<Rightarrow> None
      | Some (Parsed d) \<Rightarrow> Some d)"

subsection \<open>ChatManager: loading and saving\<close>

text \<open>The name of the Favorites chat, in UTF-8.\<close>

definition FAVORITES_NAME :: string where
  "FAVORITES_NAME =
     [CHR 0xD0, CHR 0x98, CHR 0xD0, CHR 0xB7, CHR 0xD0, CHR 0xB1, CHR 0xD1, CHR 0x80,
      CHR 0xD0, CHR 0xB0, CHR 0xD0, CHR 0xBD, CHR 0xD0, CHR 0xBD, CHR 0xD0, CHR 0xBE,
      CHR 0xD0, CHR 0xB5]"

definition initializeChats :: "chat list" where
  "initializeChats =
     [\<lparr>chat_id = Some 1, chat_name = Some FAVORITES_NAME, chat_description = None,
       chat_type = Some ''favorites'', chat_participants = None,
       chat_messages = Some [], chat_createdAt = None\<rparr>]"

text \<open>The filter of \<^verbatim>\<open>loadChats\<close>: \<^verbatim>\<open>chat && chat.id && chat.name\<close>.\<close>

definition valid_chat :: "chat option \<Rightarrow> bool" where
  "valid_chat c =
     (case c of None \<Rightarrow> False
      | Some ch \<Rightarrow> truthy_num (chat_id ch) \<and> truthy_str (chat_name ch))"

text \<open>A stored chat entry that is an object without an \<^verbatim>\<open>id\<close> or without a \<^verbatim>\<open>name\<close>.\<close>

definition lacks_id_or_name :: "chat option \<Rightarrow> bool" where
  "lacks_id_or_name c =
     (case c of None \<Rightarrow> False | Some ch \<Rightarrow> chat_id ch = None \<or> chat_name ch = None)"

definition loadChats :: "string \<Rightarrow> chatManager \<Rightarrow> chatManager" where
  "loadChats userKey m =
     (case loadUserData userKey (storage m) of
        Some d \<Rightarrow>
          (let cs = map the (filter valid_chat (or_else (stored_chats d) (map Some initializeChats)))
           in m\<lparr>chats := (if length cs = 0 then initializeChats else cs),
                friends := or_else (stored_friends d) [],
                friendRequests := or_else (stored_friendRequests d) [],
                sentFriendRequests := or_else (stored_sentFriendRequests d) []\<rparr>)
      | None \<Rightarrow>
          m\<lparr>chats := initializeChats, friends := [], friendRequests := [],
            sentFriendRequests := []\<rparr>)"

text \<open>
  \<open>profile_of\<close> is the object literal of \<^verbatim>\<open>saveChats\<close>. \<^verbatim>\<open>saveChats\<close> throws what
  \<^verbatim>\<open>saveUserData\<close> throws.
\<close>

definition profile_of :: "string \<Rightarrow> chatManager \<Rightarrow> userData" where
  "profile_of uname m =
     \<lparr>stored_username = Some uname,
      stored_chats = Some (map Some (chats m)),
      stored_friends = Some (friends m),
      stored_friendRequests = Some (friendRequests m),
      stored_sentFriendRequests = Some (sentFriendRequests m)\<rparr>"

definition saveChats :: "string \<Rightarrow> string \<Rightarrow> chatManager \<Rightarrow> (error + unit) \<times> chatManager" where
  "saveChats userKey uname m =
     (case saveUserData userKey (profile_of uname m) (storage m) of
        Inl e \<Rightarrow> (Inl e, m)
      | Inr ls \<Rightarrow> (Inr (), m\<lparr>storage := ls\<rparr>))"

text \<open>\<^verbatim>\<open>new ChatManager(storageManager)\<close>.\<close>

definition ChatManager_new :: "localStorage \<Rightarrow> chatManager" where
  "ChatManager_new ls =
     \<lparr>storage = ls, chats = [], friends = [], friendRequests = [], sentFriendRequests = []\<rparr>"

subsection \<open>ChatManager: chats and messages\<close>

text \<open>\<^verbatim>\<open>createChat\<close> returns the new chat and pushes it onto \<^verbatim>\<open>this.chats\<close>.\<close>

definition createChat :: "string \<Rightarrow> string \<Rightarrow> date \<Rightarrow> chatManager \<Rightarrow> chat \<times> chatManager" where
  "createChat name description now m =
     (let newChat = \<lparr>chat_id = Some (getTime now), chat_name = Some (trim name),
                      chat_description = Some (trim description), chat_type = None,
                      chat_participants = None, chat_messages = Some [],
                      chat_createdAt = Some (toISOString now)\<rparr>
      in (newChat, m\<lparr>chats := chats m @ [newChat]\<rparr>))"

definition createPrivateChat ::
  "string \<Rightarrow> string \<Rightarrow> string \<Rightarrow> date \<Rightarrow> chatManager \<Rightarrow> chat \<times> chatManager" where
  "createPrivateChat friendKey friendUsername currentUserKey now m =
     (let newChat = \<lparr>chat_id = Some (getTime now), chat_name = Some friendUsername,
                      chat_description = None, chat_type = Some ''private'',
                      chat_participants = Some [currentUserKey, friendKey],
                      chat_messages = Some [], chat_createdAt = Some (toISOString now)\<rparr>
      in (newChat, m\<lparr>chats := chats m @ [newChat]\<rparr>))"

text \<open>The object literal of \<^verbatim>\<open>addMessage\<close>.\<close>

definition new_message ::
  "string \<Rightarrow> string \<Rightarrow> string \<Rightarrow> string option \<Rightarrow> string option \<Rightarrow> date \<Rightarrow> message" where
  "new_message author txt ty fileData fileName now =
     \<lparr>msg_author = author, msg_text = trim txt,
      msg_time = padStart 2 (CHR ''0'') (toString_nat (getHours now)) @ '':'' @
                 padStart 2 (CHR ''0'') (toString_nat (getMinutes now)),
      msg_timestamp = toISOString now, msg_type = ty,
      msg_fileData = fileData, msg_fileName = fileName\<rparr>"

text \<open>
  \<^verbatim>\<open>addMessage\<close> mutates the chat object it is given and returns the message; here it
  returns the message and the chat. An absent \<^verbatim>\<open>messages\<close> becomes the empty array first.
\<close>

definition addMessage ::
  "chat \<Rightarrow> string \<Rightarrow> string \<Rightarrow> string \<Rightarrow> string option \<Rightarrow> string option \<Rightarrow> date \<Rightarrow>
   message \<times> chat" where
  "addMessage c author txt ty fileData fileName now =
     (let msgs = or_else (chat_messages c) [];
          msg = new_message author txt ty fileData fileName now;
          pushed = msgs @ [msg]
      in (msg, c\<lparr>chat_messages :=
                   Some (if length pushed > 1000 then slice_last 1000 pushed else pushed)\<rparr>))"

text \<open>
  The arguments of one call of \<^verbatim>\<open>addMessage\<close> after the chat, and a run of calls on one
  chat, in order.
\<close>

type_synonym message_args =
  "string \<times> string \<times> string \<times> string option \<times> string option \<times> date"

definition message_of :: "message_args \<Rightarrow> message" where
  "message_of a =
     (case a of (author, txt, ty, fileData, fileName, now) \<Rightarrow>
        new_message author txt ty fileData fileName now)"

definition addMessage_call :: "chat \<Rightarrow> message_args \<Rightarrow> chat" where
  "addMessage_call c a =
     (case a of (author, txt, ty, fileData, fileName, now) \<Rightarrow>
        snd (addMessage c author txt ty fileData fileName now))"

definition addMessage_calls :: "chat \<Rightarrow> message_args list \<Rightarrow> chat" where
  "addMessage_calls c calls = foldl addMessage_call c calls"

subsection \<open>ChatManager: friends and friend requests\<close>

definition addFriend :: "string \<Rightarrow> string \<Rightarrow> date \<Rightarrow> chatManager \<Rightarrow> bool \<times> chatManager" where
  "addFriend friendKey friendUsername now m =
     (if list_ex (\<lambda>friend. key friend = friendKey) (friends m) then (False, m)
      else (True, m\<lparr>friends := friends m @
              [\<lparr>key = friendKey, username = friendUsername, eventAt = toISOString now\<rparr>]\<rparr>))"

text \<open>\<^verbatim>\<open>addUserByKey\<close> adds the friend when a profile is stored under the key.\<close>

definition addUserByKey :: "string \<Rightarrow> string \<Rightarrow> date \<Rightarrow> chatManager \<Rightarrow> bool \<times> chatManager" where
  "addUserByKey userKey uname now m =
     (case loadUserData userKey (storage m) of
        None \<Rightarrow> (False, m)
      | Some d \<Rightarrow> addFriend userKey uname now m)"

text \<open>
  \<^verbatim>\<open>sendFriendRequest\<close> pushes onto \<^verbatim>\<open>this.sentFriendRequests\<close> before it touches the
  storage, so a failed save of the target's profile leaves the pushed entry behind.
\<close>

definition sendFriendRequest ::
  "string \<Rightarrow> string \<Rightarrow> string \<Rightarrow> date \<Rightarrow> chatManager \<Rightarrow> (error + bool) \<times> chatManager" where
  "sendFriendRequest targetUserKey currentUserKey currentUsername now m =
     (if list_ex (\<lambda>req. key req = targetUserKey) (sentFriendRequests m) then (Inr False, m)
      else
        let m1 = m\<lparr>sentFriendRequests := sentFriendRequests m @
                     [\<lparr>key = targetUserKey, username = currentUsername,
                       eventAt = toISOString now\<rparr>]\<rparr>
        in case loadUserData targetUserKey (storage m1) of
             None \<Rightarrow> (Inr True, m1)
           | Some targetUserData \<Rightarrow>
               (let reqs = or_else (stored_friendRequests targetUserData) [];
                    d = targetUserData\<lparr>stored_friendRequests := Some (reqs @
                          [\<lparr>key = currentUserKey, username = currentUsername,
                            eventAt = toISOString now\<rparr>])\<rparr>
                in case saveUserData targetUserKey d (storage m1) of
                     Inl e \<Rightarrow> (Inl e, m1)
                   | Inr ls \<Rightarrow> (Inr True, m1\<lparr>storage := ls\<rparr>)))"

text \<open>The requester's profile as \<^verbatim>\<open>acceptFriendRequest\<close> rewrites it before saving.\<close>

definition accepted_by :: "string \<Rightarrow> string \<Rightarrow> date \<Rightarrow> userData \<Rightarrow> userData" where
  "accepted_by currentUserKey currentUsername now requesterData =
     (let d1 = (case stored_sentFriendRequests requesterData of
                  None \<Rightarrow> requesterData
                | Some sent \<Rightarrow> requesterData\<lparr>stored_sentFriendRequests :=
                    Some (filter (\<lambda>req. key req \<noteq> currentUserKey) sent)\<rparr>);
          fs = or_else (stored_friends d1) []
      in d1\<lparr>stored_friends := Some
             (if \<not> list_ex (\<lambda>f. key f = currentUserKey) fs
              then fs @ [\<lparr>key = currentUserKey, username = currentUsername,
                          eventAt = toISOString now\<rparr>]
              else fs)\<rparr>)"

definition acceptFriendRequest ::
  "string \<Rightarrow> string \<Rightarrow> string \<Rightarrow> string \<Rightarrow> date \<Rightarrow> chatManager \<Rightarrow> (error + unit) \<times> chatManager" where
  "acceptFriendRequest requesterKey requesterUsername currentUserKey currentUsername now m =
     (let m1 = snd (addFriend requesterKey requesterUsername now m);
          m2 = m1\<lparr>friendRequests := filter (\<lambda>req. key req \<noteq> requesterKey) (friendRequests m1)\<rparr>
      in case loadUserData requesterKey (storage m2) of
           None \<Rightarrow> (Inr (), m2)
         | Some requesterData \<Rightarrow>
             (case saveUserData requesterKey
                     (accepted_by currentUserKey currentUsername now requesterData) (storage m2) of
                Inl e \<Rightarrow> (Inl e, m2)
              | Inr ls \<Rightarrow> (Inr (), m2\<lparr>storage := ls\<rparr>)))"

definition rejectFriendRequest :: "string \<Rightarrow> chatManager \<Rightarrow> chatManager" where
  "rejectFriendRequest requesterKey m =
     m\<lparr>friendRequests := filter (\<lambda>req. key req \<noteq> requesterKey) (friendRequests m)\<rparr>"

subsection \<open>The states a ChatManager reaches\<close>

text \<open>
  The browser starts with an empty \<^verbatim>\<open>localStorage\<close>. A page load builds a new manager on
  the storage as it is; every method of \<^verbatim>\<open>ChatManager\<close> that changes the manager or the
  storage is a step (\<^verbatim>\<open>addMessage\<close> on a chat of the list); and the quota may change
  between two steps.
\<close>

inductive reachable :: "chatManager \<Rightarrow> bool" where
  first_load: "items ls = Map.empty \<Longrightarrow> reachable (ChatManager_new ls)"
| page_load: "reachable m \<Longrightarrow> reachable (ChatManager_new (storage m))"
| quota_change: "reachable m \<Longrightarrow> reachable (m\<lparr>storage := (storage m)\<lparr>quota := q\<rparr>\<rparr>)"
| loaded: "reachable m \<Longrightarrow> reachable (loadChats userKey m)"
| saved: "reachable m \<Longrightarrow> reachable (snd (saveChats userKey uname m))"
| chat_created: "reachable m \<Longrightarrow> reachable (snd (createChat name description now m))"
| private_chat_created:
    "reachable m \<Longrightarrow> reachable (snd (createPrivateChat friendKey friendUsername selfKey now m))"
| message_added:
    "reachable m \<Longrightarrow> i < length (chats m) \<Longrightarrow>
     reachable (m\<lparr>chats := (chats m)
       [i := snd (addMessage (chats m ! i) author txt ty fileData fileName now)]\<rparr>)"
| friend_added: "reachable m \<Longrightarrow> reachable (snd (addFriend friendKey friendUsername now m))"
| user_added: "reachable m \<Longrightarrow> reachable (snd (addUserByKey userKey uname now m))"
| request_sent:
    "reachable m \<Longrightarrow> reachable (snd (sendFriendRequest targetKey selfKey selfUsername now m))"
| request_accepted:
    "reachable m \<Longrightarrow>
     reachable (snd (acceptFriendRequest requesterKey requesterUsername selfKey selfUsername now m))"
| request_rejected: "reachable m \<Longrightarrow> reachable (rejectFriendRequest requesterKey m)"

text \<open>
  The friends and the sent requests of every stored profile have distinct keys; the same
  of a manager and its storage.
\<close>

definition stored_distinct :: "localStorage \<Rightarrow> bool" where
  "stored_distinct ls =
     (\<forall>k d. items ls k = Some (Parsed d) \<longrightarrow>
        distinct (map key (or_else (stored_friends d) [])) \<and>
        distinct (map key (or_else (stored_sentFriendRequests d) [])))"

definition keys_distinct :: "chatManager \<Rightarrow> bool" where
  "keys_distinct m =
     (distinct (map key (friends m)) \<and> distinct (map key (sentFriendRequests m)) \<and>
      stored_distinct (storage m))"

subsection \<open>MMessengerApp: creating a chat\<close>

text \<open>
  The fields of the application that \<^verbatim>\<open>saveUserData\<close> and \<^verbatim>\<open>createChat\<close> use. The
  application's \<^verbatim>\<open>storage\<close> is the object its chat manager holds.
\<close>

record mmessengerApp =
  currentUser :: string
  currentUserKey :: string
  chatManager :: chatManager

text \<open>What a method shows: an alert, a rendering of the chat list, the closing of the modal.\<close>

datatype ui_effect =
  AlertEnterChannelName | AlertCreateChatFailed | RenderChatList "chat list" | CloseModal

definition app_saveUserData :: "mmessengerApp \<Rightarrow> (error + unit) \<times> mmessengerApp" where
  "app_saveUserData a =
     (if currentUserKey a \<noteq> [] \<and> currentUser a \<noteq> []
      then (case saveChats (currentUserKey a) (currentUser a) (chatManager a) of
              (r, cm) \<Rightarrow> (r, a\<lparr>chatManager := cm\<rparr>))
      else (Inr (), a))"

text \<open>
  \<^verbatim>\<open>MMessengerApp.createChat\<close>, given the values of the two input fields: the body of
  \<^verbatim>\<open>try\<close> creates the chat and saves; the handler alerts.
\<close>

definition app_createChat ::
  "string \<Rightarrow> string \<Rightarrow> date \<Rightarrow> mmessengerApp \<Rightarrow> ui_effect list \<times> mmessengerApp" where
  "app_createChat nameInput descInput now a =
     (let name = trim nameInput
      in if name = [] then ([AlertEnterChannelName], a)
         else
           let a1 = a\<lparr>chatManager := snd (createChat name descInput now (chatManager a))\<rparr>
           in case app_saveUserData a1 of
                (Inl e, a2) \<Rightarrow> ([AlertCreateChatFailed], a2)
              | (Inr u, a2) \<Rightarrow> ([RenderChatList (chats (chatManager a2)), CloseModal], a2))"

subsection \<open>Concrete states\<close>

text \<open>A storage that accepts every write, and one whose quota is used up.\<close>

definition roomy :: "(string \<rightharpoonup> item) \<Rightarrow> localStorage" where
  "roomy its = \<lparr>items = its, quota = (\<lambda>k d. True)\<rparr>"

definition exhausted :: "(string \<rightharpoonup> item) \<Rightarrow> localStorage" where
  "exhausted its = \<lparr>items = its, quota = (\<lambda>k d. False)\<rparr>"

definition no_fields :: userData where
  "no_fields = \<lparr>stored_username = None, stored_chats = None, stored_friends = None,
                stored_friendRequests = None, stored_sentFriendRequests = None\<rparr>"

definition profile_named :: "string \<Rightarrow> userData" where
  "profile_named u = no_fields\<lparr>stored_username := Some u\<rparr>"

definition noon :: date where
  "noon = \<lparr>getTime = 1700000000000, getHours = 12, getMinutes = 0,
           toISOString = ''2023-11-14T22:13:20.000Z''\<rparr>"

definition ref :: "string \<Rightarrow> string \<Rightarrow> friendRef" where
  "ref k u = \<lparr>key = k, username = u, eventAt = toISOString noon\<rparr>"

definition stored_under :: "string \<Rightarrow> userData \<Rightarrow> string \<rightharpoonup> item" where
  "stored_under k d = [USER_KEY_PREFIX @ k \<mapsto> Parsed d]"

definition nameless :: chat where
  "nameless = \<lparr>chat_id = Some 7, chat_name = None, chat_description = None,
                chat_type = None, chat_participants = None,
                chat_messages = Some [], chat_createdAt = None\<rparr>"

definition empty_chat :: chat where
  "empty_chat = nameless\<lparr>chat_name := Some ''Team''\<rparr>"

definition numbered :: "nat \<Rightarrow> message_args" where
  "numbered i = (''alice'', toString_nat i, ''text'', None, None, noon)"

text \<open>
  Rob (key R) has asked Sam (key S): a manager for Sam with Rob's request in its inbox, and
  Rob's stored profile with the request in its sent list.
\<close>

definition rob_asked :: "localStorage \<Rightarrow> chatManager" where
  "rob_asked ls = (ChatManager_new ls)\<lparr>friendRequests := [ref ''R'' ''rob'']\<rparr>"

definition rob_waiting :: userData where
  "rob_waiting = (profile_named ''rob'')\<lparr>stored_sentFriendRequests := Some [ref ''S'' ''rob'']\<rparr>"

text \<open>
  A manager whose friends list holds the key K. Bob signs up on an empty storage (his
  profile is loaded and saved under the key B); then the page is loaded again and Alice
  signs up (her profile is loaded under the key A).
\<close>

definition once_known :: chatManager where
  "once_known = (ChatManager_new (roomy Map.empty))\<lparr>friends := [ref ''K'' ''old'']\<rparr>"

definition bob_registered :: chatManager where
  "bob_registered =
     snd (saveChats ''B'' ''bob'' (loadChats ''B'' (ChatManager_new (roomy Map.empty))))"

definition alice_arrives :: chatManager where
  "alice_arrives = loadChats ''A'' (ChatManager_new (storage bob_registered))"


definition alice_app :: "localStorage \<Rightarrow> mmessengerApp" where
  "alice_app ls = \<lparr>currentUser = ''alice'', currentUserKey = ''A'',
                    chatManager = (ChatManager_new ls)\<lparr>chats := initializeChats\<rparr>\<rparr>"

section \<open>Properties\<close>

lemma lacks_not_valid: "lacks_id_or_name c \<Longrightarrow> \<not> valid_chat c"
  by (auto simp: lacks_id_or_name_def valid_chat_def truthy_num_def truthy_str_def
           split: option.splits)

lemma filter_valid_initializeChats:
  "filter valid_chat (map Some initializeChats) = map Some initializeChats"
  by (simp add: initializeChats_def valid_chat_def truthy_num_def truthy_str_def
                FAVORITES_NAME_def)

lemma initializeChats_nonempty: "initializeChats \<noteq> []"
  by (simp add: initializeChats_def)

lemma loadChats_nonempty: "chats (loadChats userKey m) \<noteq> []"
  by (auto simp: loadChats_def Let_def initializeChats_nonempty split: option.splits)

lemma loadChats_absent:
  "loadUserData userKey (storage m) = None \<Longrightarrow> chats (loadChats userKey m) = initializeChats"
  by (simp add: loadChats_def)

lemma loadChats_no_chats_field:
  "loadUserData userKey (storage m) = Some d \<Longrightarrow> stored_chats d = None \<Longrightarrow>
   chats (loadChats userKey m) = initializeChats"
  by (simp add: loadChats_def Let_def or_else_def filter_valid_initializeChats
                initializeChats_nonempty comp_def)

lemma loadChats_all_invalid:
  "loadUserData userKey (storage m) = Some d \<Longrightarrow> stored_chats d = Some cs \<Longrightarrow>
   \<forall>c \<in> set cs. \<not> valid_chat c \<Longrightarrow>
   chats (loadChats userKey m) = initializeChats"
  by (simp add: loadChats_def Let_def or_else_def filter_False)

subsection \<open>Loading falls back to Favorites\<close>

text \<open>
  C2. For every user key and every storage, the chat list after \<^verbatim>\<open>loadChats\<close> is not
  empty. When no profile is stored under the key, when the stored profile has no
  \<^verbatim>\<open>chats\<close> property, and when every entry of the stored chat list lacks an \<^verbatim>\<open>id\<close> or a
  \<^verbatim>\<open>name\<close> (the empty list included), the chat list is the one Favorites chat, whose id is
  1 and whose message list is empty.
\<close>

theorem loadChats_favorites_fallback:
  "chats (loadChats userKey m) \<noteq> [] \<and>
   (loadUserData userKey (storage m) = None \<longrightarrow>
      chats (loadChats userKey m) = initializeChats) \<and>
   (\<forall>d. loadUserData userKey (storage m) = Some d \<longrightarrow>
      (stored_chats d = None \<or>
       (\<exists>cs. stored_chats d = Some cs \<and> (\<forall>c \<in> set cs. lacks_id_or_name c))) \<longrightarrow>
      chats (loadChats userKey m) = initializeChats) \<and>
   map chat_id initializeChats = [Some 1] \<and>
   map chat_messages initializeChats = [Some []]"
proof -
  have absent: "loadUserData userKey (storage m) = None \<longrightarrow>
      chats (loadChats userKey m) = initializeChats"
    by (simp add: loadChats_absent)
  have stored: "chats (loadChats userKey m) = initializeChats"
    if d: "loadUserData userKey (storage m) = Some d"
    and c: "stored_chats d = None \<or>
       (\<exists>cs. stored_chats d = Some cs \<and> (\<forall>c \<in> set cs. lacks_id_or_name c))" for d
    using c
  proof
    assume "stored_chats d = None"
    with d show ?thesis by (rule loadChats_no_chats_field)
  next
    assume "\<exists>cs. stored_chats d = Some cs \<and> (\<forall>c \<in> set cs. lacks_id_or_name c)"
    then obtain cs where cs: "stored_chats d = Some cs" "\<forall>c \<in> set cs. lacks_id_or_name c"
      by blast
    from cs(2) have "\<forall>c \<in> set cs. \<not> valid_chat c"
      by (blast dest: lacks_not_valid)
    with d cs(1) show ?thesis by (rule loadChats_all_invalid)
  qed
  have fav: "map chat_id initializeChats = [Some 1] \<and>
     map chat_messages initializeChats = [Some []]"
    by (simp add: initializeChats_def)
  from loadChats_nonempty absent stored fav show ?thesis by blast
qed

theorem loadChats_favorites_fallback_witness:
  "chats (loadChats ''A'' (ChatManager_new (roomy Map.empty))) = initializeChats \<and>
   chats (loadChats ''A'' (ChatManager_new
      (roomy (stored_under ''A'' (profile_named ''alice''))))) = initializeChats \<and>
   chats (loadChats ''A'' (ChatManager_new
      (roomy (stored_under ''A''
         ((profile_named ''alice'')\<lparr>stored_chats := Some [Some nameless]\<rparr>))))) = initializeChats"
  using loadChats_favorites_fallback [of "''A''" "ChatManager_new (roomy Map.empty)"]
    loadChats_favorites_fallback [of "''A''" "ChatManager_new
      (roomy (stored_under ''A'' (profile_named ''alice'')))"]
    loadChats_favorites_fallback [of "''A''" "ChatManager_new
      (roomy (stored_under ''A''
         ((profile_named ''alice'')\<lparr>stored_chats := Some [Some nameless]\<rparr>)))"]
  by (simp add: loadUserData_def ChatManager_new_def roomy_def profile_named_def no_fields_def
       lacks_id_or_name_def nameless_def stored_under_def)

subsection \<open>The cap on a chat's messages\<close>

lemma slice_last_short: "length xs \<le> k \<Longrightarrow> slice_last k xs = xs"
  by (simp add: slice_last_def)

lemma length_slice_last: "length (slice_last k xs) = min k (length xs)"
  by (simp add: slice_last_def)

lemma slice_last_snoc:
  "slice_last k (slice_last k xs @ [y]) = slice_last k (xs @ [y])"
  by (cases "length xs \<le> k") (auto simp: slice_last_def Suc_diff_le)

lemma addMessage_messages:
  "chat_messages (snd (addMessage c author txt ty fileData fileName now)) =
     Some (slice_last 1000 (or_else (chat_messages c) [] @
             [new_message author txt ty fileData fileName now]))"
  by (simp add: addMessage_def Let_def slice_last_short)

lemma addMessage_call_messages:
  "chat_messages (addMessage_call c a) =
     Some (slice_last 1000 (or_else (chat_messages c) [] @ [message_of a]))"
  by (cases a) (simp add: addMessage_call_def message_of_def addMessage_messages)

lemma addMessage_calls_messages:
  "calls \<noteq> [] \<Longrightarrow>
   chat_messages (addMessage_calls c calls) =
     Some (slice_last 1000 (or_else (chat_messages c) [] @ map message_of calls))"
proof (induction calls rule: rev_induct)
  case Nil
  then show ?case by simp
next
  case (snoc a calls)
  show ?case
  proof (cases "calls = []")
    case True
    then show ?thesis
      by (simp add: addMessage_calls_def addMessage_call_messages)
  next
    case False
    with snoc.IH have
      "chat_messages (foldl addMessage_call c calls) =
         Some (slice_last 1000 (or_else (chat_messages c) [] @ map message_of calls))"
      by (simp add: addMessage_calls_def)
    then show ?thesis
      by (simp add: addMessage_calls_def addMessage_call_messages or_else_def slice_last_snoc)
  qed
qed

text \<open>
  C3. After any call of \<^verbatim>\<open>addMessage\<close> the chat has at most 1000 messages. 1001 calls on
  a chat that starts without messages leave exactly 1000: those of the last 1000 calls,
  in the order of the calls; the message of the first call is gone.
\<close>

theorem addMessage_keeps_last_1000:
  "(\<exists>msgs. chat_messages (snd (addMessage c author txt ty fileData fileName now)) = Some msgs \<and>
      length msgs \<le> 1000) \<and>
   (or_else (chat_messages c) [] = [] \<longrightarrow> length calls = 1001 \<longrightarrow>
      chat_messages (addMessage_calls c calls) = Some (map message_of (drop 1 calls)) \<and>
      length (map message_of (drop 1 calls)) = 1000)"
proof -
  have one: "\<exists>msgs. chat_messages (snd (addMessage c author txt ty fileData fileName now)) =
      Some msgs \<and> length msgs \<le> 1000"
    by (simp add: addMessage_messages length_slice_last)
  have many: "chat_messages (addMessage_calls c calls) = Some (map message_of (drop 1 calls)) \<and>
      length (map message_of (drop 1 calls)) = 1000"
    if e: "or_else (chat_messages c) [] = []" and n: "length calls = 1001"
  proof -
    from n have "calls \<noteq> []" by auto
    then have "chat_messages (addMessage_calls c calls) =
        Some (slice_last 1000 (map message_of calls))"
      using e by (simp add: addMessage_calls_messages)
    moreover from n have "slice_last 1000 (map message_of calls) = map message_of (drop 1 calls)"
      by (simp add: slice_last_def drop_map)
    ultimately show ?thesis using n by simp
  qed
  from one many show ?thesis by blast
qed

theorem addMessage_keeps_last_1000_witness:
  "chat_messages (addMessage_calls empty_chat (map numbered [0..<1001])) =
     Some (map message_of (map numbered [1..<1001]))"
  using addMessage_keeps_last_1000 [of empty_chat "''alice''" "''hi''" "''text''" None None noon
      "map numbered [0..<1001]"]
  by (simp add: empty_chat_def nameless_def or_else_def drop_map)

subsection \<open>Rejecting a friend request\<close>

text \<open>
  C7. \<^verbatim>\<open>rejectFriendRequest\<close> removes every entry with the requester's key from the
  incoming requests, keeps the other entries in their order, and changes nothing else:
  chats, friends and sent requests are the same, the storage is the same (no profile is
  written), and the result does not depend on what the storage holds (no profile is read).
\<close>

theorem rejectFriendRequest_local:
  "friendRequests (rejectFriendRequest requesterKey m) =
     filter (\<lambda>req. key req \<noteq> requesterKey) (friendRequests m) \<and>
   requesterKey \<notin> key ` set (friendRequests (rejectFriendRequest requesterKey m)) \<and>
   chats (rejectFriendRequest requesterKey m) = chats m \<and>
   friends (rejectFriendRequest requesterKey m) = friends m \<and>
   sentFriendRequests (rejectFriendRequest requesterKey m) = sentFriendRequests m \<and>
   storage (rejectFriendRequest requesterKey m) = storage m \<and>
   rejectFriendRequest requesterKey (m\<lparr>storage := ls\<rparr>) =
     (rejectFriendRequest requesterKey m)\<lparr>storage := ls\<rparr>"
  by (auto simp: rejectFriendRequest_def)

subsection \<open>A request to a key without a profile\<close>

text \<open>
  C10. When the caller has sent no request to the target key and no profile is stored under
  that key, \<^verbatim>\<open>sendFriendRequest\<close> returns \<^verbatim>\<open>true\<close> and appends an entry for the target to
  the caller's sent requests; the storage is left as it was, so no stored profile receives
  the request.
\<close>

theorem sendFriendRequest_undelivered:
  "targetKey \<notin> key ` set (sentFriendRequests m) \<Longrightarrow>
   loadUserData targetKey (storage m) = None \<Longrightarrow>
   sendFriendRequest targetKey selfKey selfUsername now m =
     (Inr True, m\<lparr>sentFriendRequests := sentFriendRequests m @
        [\<lparr>key = targetKey, username = selfUsername, eventAt = toISOString now\<rparr>]\<rparr>) \<and>
   storage (snd (sendFriendRequest targetKey selfKey selfUsername now m)) =
     storage m"
  by (auto simp: sendFriendRequest_def list_ex_iff Let_def)

theorem sendFriendRequest_undelivered_witness:
  "sendFriendRequest ''T'' ''A'' ''alice'' noon
     (ChatManager_new (roomy (stored_under ''B'' (profile_named ''bob'')))) =
     (Inr True, (ChatManager_new (roomy (stored_under ''B'' (profile_named ''bob''))))
        \<lparr>sentFriendRequests := [ref ''T'' ''alice'']\<rparr>)"
  using sendFriendRequest_undelivered [of "''T''"
     "ChatManager_new (roomy (stored_under ''B'' (profile_named ''bob'')))" "''A''" "''alice''" noon]
  by (simp add: ChatManager_new_def roomy_def stored_under_def loadUserData_def
       USER_KEY_PREFIX_def ref_def)

subsection \<open>Accepting a friend request\<close>

lemma loadUserData_saveUserData:
  "saveUserData k d ls = Inr ls' \<Longrightarrow> loadUserData k ls' = Some d"
  by (auto simp: saveUserData_def loadUserData_def split: if_splits)

lemma saveUserData_accepts:
  "quota ls (USER_KEY_PREFIX @ k) d \<Longrightarrow>
   saveUserData k d ls = Inr (ls\<lparr>items := (items ls)(USER_KEY_PREFIX @ k \<mapsto> Parsed d)\<rparr>)"
  by (simp add: saveUserData_def)

lemma saveUserData_refuses:
  "\<not> quota ls (USER_KEY_PREFIX @ k) d \<Longrightarrow> saveUserData k d ls = Inl SaveFailed"
  by (simp add: saveUserData_def)

lemma addFriend_has_key: "k \<in> key ` set (friends (snd (addFriend k u now m)))"
  by (auto simp: addFriend_def list_ex_iff)

lemma addFriend_frame:
  "storage (snd (addFriend k u now m)) = storage m \<and>
   friendRequests (snd (addFriend k u now m)) = friendRequests m \<and>
   sentFriendRequests (snd (addFriend k u now m)) = sentFriendRequests m \<and>
   chats (snd (addFriend k u now m)) = chats m"
  by (simp add: addFriend_def)

lemma accepted_by_friends:
  "selfKey \<in> key ` set (or_else (stored_friends (accepted_by selfKey selfUsername now d)) [])"
  by (cases "stored_sentFriendRequests d"; cases "stored_friends d")
     (auto simp: accepted_by_def Let_def or_else_def list_ex_iff)

lemma accepted_by_sent:
  "selfKey \<notin> key ` set (or_else (stored_sentFriendRequests (accepted_by selfKey selfUsername now d)) [])"
  by (cases "stored_sentFriendRequests d") (auto simp: accepted_by_def Let_def or_else_def)

lemma acceptFriendRequest_memory:
  "requesterKey \<in> key ` set (friends (snd
      (acceptFriendRequest requesterKey requesterUsername selfKey selfUsername now m))) \<and>
   requesterKey \<notin> key ` set (friendRequests (snd
      (acceptFriendRequest requesterKey requesterUsername selfKey selfUsername now m)))"
  using addFriend_has_key [of requesterKey requesterUsername now m]
  by (auto simp: acceptFriendRequest_def Let_def split: option.splits sum.splits)

lemma acceptFriendRequest_saved:
  assumes "loadUserData requesterKey (storage m) = Some d"
    and "quota (storage m) (USER_KEY_PREFIX @ requesterKey) (accepted_by selfKey selfUsername now d)"
  shows "fst (acceptFriendRequest requesterKey requesterUsername selfKey selfUsername now m) = Inr () \<and>
    loadUserData requesterKey (storage (snd
      (acceptFriendRequest requesterKey requesterUsername selfKey selfUsername now m))) =
      Some (accepted_by selfKey selfUsername now d)"
  using assms
  by (simp add: acceptFriendRequest_def Let_def addFriend_frame saveUserData_accepts
        loadUserData_def)

lemma acceptFriendRequest_refused:
  assumes "loadUserData requesterKey (storage m) = Some d"
    and "\<not> quota (storage m) (USER_KEY_PREFIX @ requesterKey) (accepted_by selfKey selfUsername now d)"
  shows "fst (acceptFriendRequest requesterKey requesterUsername selfKey selfUsername now m) =
      Inl SaveFailed \<and>
    storage (snd
      (acceptFriendRequest requesterKey requesterUsername selfKey selfUsername now m)) = storage m"
  using assms
  by (simp add: acceptFriendRequest_def Let_def addFriend_frame saveUserData_refuses)

text \<open>
  C1, as stated, at a storage whose quota is used up: Rob's profile is stored, Sam accepts,
  the write of Rob's profile throws, and the stored profile has no entry for Sam among its
  friends.
\<close>

theorem acceptFriendRequest_refused_write_counterexample:
  "loadUserData ''R'' (storage (rob_asked (exhausted (stored_under ''R'' rob_waiting)))) =
     Some rob_waiting \<and>
   \<not> (\<exists>d'. loadUserData ''R'' (storage (snd (acceptFriendRequest ''R'' ''rob'' ''S'' ''sam'' noon
          (rob_asked (exhausted (stored_under ''R'' rob_waiting)))))) = Some d' \<and>
        ''S'' \<in> key ` set (or_else (stored_friends d') []) \<and>
        ''S'' \<notin> key ` set (or_else (stored_sentFriendRequests d') []))"
  by (simp add: Let_def rob_asked_def exhausted_def stored_under_def rob_waiting_def
        ChatManager_new_def loadUserData_def or_else_def ref_def
        profile_named_def no_fields_def acceptFriendRequest_def addFriend_def saveUserData_def)

text \<open>
  C1, amended. In every state with a profile stored under the requester's key: after
  \<^verbatim>\<open>acceptFriendRequest\<close> the requester is among self's friends and not among self's
  incoming requests; the rewritten requester profile has self among its friends and not
  among its sent requests; when the storage accepts the write, the call returns and the
  rewritten profile is the one stored under the requester's key; when the storage refuses
  it, the call throws and the storage is as it was.
\<close>

theorem acceptFriendRequest_links_both:
  "loadUserData requesterKey (storage m) = Some d \<Longrightarrow>
   (let r = acceptFriendRequest requesterKey requesterUsername selfKey selfUsername now m;
        d' = accepted_by selfKey selfUsername now d
    in requesterKey \<in> key ` set (friends (snd r)) \<and>
       requesterKey \<notin> key ` set (friendRequests (snd r)) \<and>
       selfKey \<in> key ` set (or_else (stored_friends d') []) \<and>
       selfKey \<notin> key ` set (or_else (stored_sentFriendRequests d') []) \<and>
       (quota (storage m) (USER_KEY_PREFIX @ requesterKey) d' \<longrightarrow>
          fst r = Inr () \<and> loadUserData requesterKey (storage (snd r)) = Some d') \<and>
       (\<not> quota (storage m) (USER_KEY_PREFIX @ requesterKey) d' \<longrightarrow>
          fst r = Inl SaveFailed \<and> storage (snd r) = storage m))"
  unfolding Let_def
  using acceptFriendRequest_memory [of requesterKey requesterUsername selfKey selfUsername now m]
    accepted_by_friends [of selfKey selfUsername now d]
    accepted_by_sent [of selfKey selfUsername now d]
    acceptFriendRequest_saved [of requesterKey m d selfKey selfUsername now requesterUsername]
    acceptFriendRequest_refused [of requesterKey m d selfKey selfUsername now requesterUsername]
  by blast

theorem acceptFriendRequest_links_both_witness:
  "fst (acceptFriendRequest ''R'' ''rob'' ''S'' ''sam'' noon
          (rob_asked (roomy (stored_under ''R'' rob_waiting)))) = Inr () \<and>
   ''R'' \<in> key ` set (friends (snd (acceptFriendRequest ''R'' ''rob'' ''S'' ''sam'' noon
          (rob_asked (roomy (stored_under ''R'' rob_waiting)))))) \<and>
   ''R'' \<notin> key ` set (friendRequests (snd (acceptFriendRequest ''R'' ''rob'' ''S'' ''sam'' noon
          (rob_asked (roomy (stored_under ''R'' rob_waiting)))))) \<and>
   loadUserData ''R'' (storage (snd (acceptFriendRequest ''R'' ''rob'' ''S'' ''sam'' noon
          (rob_asked (roomy (stored_under ''R'' rob_waiting)))))) =
     Some (accepted_by ''S'' ''sam'' noon rob_waiting) \<and>
   accepted_by ''S'' ''sam'' noon rob_waiting =
     (profile_named ''rob'')\<lparr>stored_friends := Some [ref ''S'' ''sam''],
                               stored_sentFriendRequests := Some []\<rparr>"
proof -
  have stored: "loadUserData ''R'' (storage (rob_asked (roomy (stored_under ''R'' rob_waiting)))) =
      Some rob_waiting"
    by (simp add: rob_asked_def roomy_def stored_under_def ChatManager_new_def loadUserData_def)
  have room: "quota (storage (rob_asked (roomy (stored_under ''R'' rob_waiting))))
      (USER_KEY_PREFIX @ ''R'') (accepted_by ''S'' ''sam'' noon rob_waiting)"
    by (simp add: rob_asked_def roomy_def ChatManager_new_def)
  have shape: "accepted_by ''S'' ''sam'' noon rob_waiting =
     (profile_named ''rob'')\<lparr>stored_friends := Some [ref ''S'' ''sam''],
                               stored_sentFriendRequests := Some []\<rparr>"
    by (simp add: accepted_by_def rob_waiting_def profile_named_def no_fields_def ref_def
          or_else_def Let_def)
  from acceptFriendRequest_links_both [OF stored, of "''rob''" "''S''" "''sam''" noon] room shape
  show ?thesis unfolding Let_def by blast
qed

subsection \<open>What \<^verbatim>\<open>addFriend\<close> does to a key\<close>

lemma filter_key_absent:
  "k \<notin> key ` set xs \<Longrightarrow> filter (\<lambda>f. key f = k) xs = []"
  by (induction xs) auto

lemma filter_key_present:
  "k \<in> key ` set xs \<Longrightarrow> filter (\<lambda>f. key f = k) xs \<noteq> []"
  by (induction xs) auto

lemma count_key_one:
  "k \<in> key ` set xs \<Longrightarrow> length (filter (\<lambda>f. key f = k) xs) \<le> 1 \<Longrightarrow>
   length (filter (\<lambda>f. key f = k) xs) = 1"
  using filter_key_present [of k xs] by (cases "filter (\<lambda>f. key f = k) xs") auto

lemma addFriend_known:
  "k \<in> key ` set (friends m) \<Longrightarrow> addFriend k u now m = (False, m)"
  by (auto simp: addFriend_def list_ex_iff)

lemma addFriend_unknown:
  "k \<notin> key ` set (friends m) \<Longrightarrow>
   addFriend k u now m =
     (True, m\<lparr>friends := friends m @ [\<lparr>key = k, username = u, eventAt = toISOString now\<rparr>]\<rparr>)"
  by (auto simp: addFriend_def list_ex_iff)

lemma addFriend_count:
  "length (filter (\<lambda>f. key f = k) (friends m)) \<le> 1 \<Longrightarrow>
   length (filter (\<lambda>f. key f = k) (friends (snd (addFriend k u now m)))) = 1"
proof (cases "k \<in> key ` set (friends m)")
  case True
  assume "length (filter (\<lambda>f. key f = k) (friends m)) \<le> 1"
  with True show ?thesis by (simp add: addFriend_known count_key_one)
next
  case False
  then show ?thesis by (simp add: addFriend_unknown filter_key_absent)
qed

subsection \<open>What \<^verbatim>\<open>sendFriendRequest\<close> does to a key\<close>

lemma sendFriendRequest_sent:
  "t \<in> key ` set (sentFriendRequests m) \<Longrightarrow> sendFriendRequest t sk su now m = (Inr False, m)"
  by (auto simp: sendFriendRequest_def list_ex_iff)

lemma sendFriendRequest_pushes:
  "t \<notin> key ` set (sentFriendRequests m) \<Longrightarrow>
   sentFriendRequests (snd (sendFriendRequest t sk su now m)) =
     sentFriendRequests m @ [\<lparr>key = t, username = su, eventAt = toISOString now\<rparr>]"
  by (cases "loadUserData t (storage m)")
     (auto simp: sendFriendRequest_def list_ex_iff Let_def split: sum.splits)

lemma sendFriendRequest_has_key:
  "t \<in> key ` set (sentFriendRequests (snd (sendFriendRequest t sk su now m)))"
proof (cases "t \<in> key ` set (sentFriendRequests m)")
  case True
  then show ?thesis by (simp add: sendFriendRequest_sent)
next
  case False
  then show ?thesis by (simp add: sendFriendRequest_pushes)
qed

lemma sendFriendRequest_count:
  "length (filter (\<lambda>r. key r = t) (sentFriendRequests m)) \<le> 1 \<Longrightarrow>
   length (filter (\<lambda>r. key r = t)
     (sentFriendRequests (snd (sendFriendRequest t sk su now m)))) = 1"
proof (cases "t \<in> key ` set (sentFriendRequests m)")
  case True
  assume "length (filter (\<lambda>r. key r = t) (sentFriendRequests m)) \<le> 1"
  with True show ?thesis by (simp add: sendFriendRequest_sent count_key_one)
next
  case False
  then show ?thesis by (simp add: sendFriendRequest_pushes filter_key_absent)
qed

subsection \<open>Saving and loading again\<close>


lemma saveChats_accepted:
  "quota (storage m) (USER_KEY_PREFIX @ k) (profile_of u m) \<Longrightarrow>
   saveChats k u m =
     (Inr (), m\<lparr>storage := (storage m)\<lparr>items :=
        (items (storage m))(USER_KEY_PREFIX @ k \<mapsto> Parsed (profile_of u m))\<rparr>\<rparr>)"
  by (simp add: saveChats_def saveUserData_accepts)

lemma saveChats_refused:
  "\<not> quota (storage m) (USER_KEY_PREFIX @ k) (profile_of u m) \<Longrightarrow>
   saveChats k u m = (Inl SaveFailed, m)"
  by (simp add: saveChats_def saveUserData_refuses)

lemma saveChats_failed_keeps:
  "fst (saveChats k u m) = Inl e \<Longrightarrow> snd (saveChats k u m) = m"
  by (cases "quota (storage m) (USER_KEY_PREFIX @ k) (profile_of u m)")
     (simp_all add: saveChats_accepted saveChats_refused)

lemma loadChats_stored:
  "loadUserData k (storage m) = Some d \<Longrightarrow>
   loadChats k m =
     m\<lparr>chats := (let cs = map the (filter valid_chat
                      (or_else (stored_chats d) (map Some initializeChats)))
                 in if length cs = 0 then initializeChats else cs),
       friends := or_else (stored_friends d) [],
       friendRequests := or_else (stored_friendRequests d) [],
       sentFriendRequests := or_else (stored_sentFriendRequests d) []\<rparr>"
  by (simp add: loadChats_def Let_def)





subsection \<open>A save that fails after a chat was created\<close>

lemma createChat_frame:
  "storage (snd (createChat name description now m)) = storage m \<and>
   friends (snd (createChat name description now m)) = friends m \<and>
   friendRequests (snd (createChat name description now m)) = friendRequests m \<and>
   sentFriendRequests (snd (createChat name description now m)) = sentFriendRequests m \<and>
   chats (snd (createChat name description now m)) =
     chats m @ [fst (createChat name description now m)]"
  by (simp add: createChat_def Let_def)

lemma trim_ideographic_space: "trim [CHR 0xE3, CHR 0x80, CHR 0x80] = []"
  by (simp add: trim_def WHITE_SPACE_def strip_all.simps)

lemma app_createChat_blank_name:
  "trim nameInput = [] \<Longrightarrow>
   app_createChat nameInput descInput now a = ([AlertEnterChannelName], a)"
  by (simp add: app_createChat_def Let_def)

text \<open>
  C8, as stated, at a signed-in application whose storage refuses every write: creating
  the chat \<^verbatim>\<open>Team\<close> ends in the alert of the handler, and the chat list is not the one
  from before.
\<close>

theorem createChat_failed_save_counterexample:
  "fst (app_createChat ''Team'' [] noon (alice_app (exhausted Map.empty))) =
     [AlertCreateChatFailed] \<and>
   chats (chatManager (snd (app_createChat ''Team'' [] noon (alice_app (exhausted Map.empty))))) \<noteq>
     chats (chatManager (alice_app (exhausted Map.empty)))"
  by (simp add: app_createChat_def app_saveUserData_def saveChats_def saveUserData_def
        createChat_def trim_def WHITE_SPACE_def strip_all.simps alice_app_def exhausted_def
        ChatManager_new_def
        Let_def)

text \<open>
  C8, amended. A \<^verbatim>\<open>saveChats\<close> that throws returns the manager as it was given, so a
  mutation made before the save stays in memory. In particular, when the save fails
  during \<^verbatim>\<open>MMessengerApp.createChat\<close> (a non-blank name, a signed-in user), the handler
  alerts, the storage, the friends and both request lists are as before, and the chat list
  is the one from before followed by the new chat.
\<close>

theorem createChat_failed_save_keeps_chat:
  "(fst (saveChats k u m) = Inl e \<longrightarrow> snd (saveChats k u m) = m) \<and>
   (trim nameInput \<noteq> [] \<and> currentUserKey a \<noteq> [] \<and> currentUser a \<noteq> [] \<and>
    \<not> quota (storage (chatManager a)) (USER_KEY_PREFIX @ currentUserKey a)
        (profile_of (currentUser a)
           (snd (createChat (trim nameInput) descInput now (chatManager a)))) \<longrightarrow>
    (let r = app_createChat nameInput descInput now a;
         newChat = fst (createChat (trim nameInput) descInput now (chatManager a))
     in fst r = [AlertCreateChatFailed] \<and>
        chats (chatManager (snd r)) = chats (chatManager a) @ [newChat] \<and>
        storage (chatManager (snd r)) = storage (chatManager a) \<and>
        friends (chatManager (snd r)) = friends (chatManager a) \<and>
        friendRequests (chatManager (snd r)) = friendRequests (chatManager a) \<and>
        sentFriendRequests (chatManager (snd r)) = sentFriendRequests (chatManager a)))"
proof -
  have keep: "fst (saveChats k u m) = Inl e \<longrightarrow> snd (saveChats k u m) = m"
    by (simp add: saveChats_failed_keeps)
  have app: "(let r = app_createChat nameInput descInput now a;
         newChat = fst (createChat (trim nameInput) descInput now (chatManager a))
     in fst r = [AlertCreateChatFailed] \<and>
        chats (chatManager (snd r)) = chats (chatManager a) @ [newChat] \<and>
        storage (chatManager (snd r)) = storage (chatManager a) \<and>
        friends (chatManager (snd r)) = friends (chatManager a) \<and>
        friendRequests (chatManager (snd r)) = friendRequests (chatManager a) \<and>
        sentFriendRequests (chatManager (snd r)) = sentFriendRequests (chatManager a))"
    if n: "trim nameInput \<noteq> []" and uk: "currentUserKey a \<noteq> []" and un: "currentUser a \<noteq> []"
    and full: "\<not> quota (storage (chatManager a)) (USER_KEY_PREFIX @ currentUserKey a)
        (profile_of (currentUser a)
           (snd (createChat (trim nameInput) descInput now (chatManager a))))"
  proof -
    let ?cm = "snd (createChat (trim nameInput) descInput now (chatManager a))"
    from full have "saveChats (currentUserKey a) (currentUser a) ?cm = (Inl SaveFailed, ?cm)"
      by (intro saveChats_refused) (simp add: createChat_frame)
    with uk un have "app_saveUserData (a\<lparr>chatManager := ?cm\<rparr>) =
        (Inl SaveFailed, a\<lparr>chatManager := ?cm\<rparr>)"
      by (simp add: app_saveUserData_def)
    with n have "app_createChat nameInput descInput now a =
        ([AlertCreateChatFailed], a\<lparr>chatManager := ?cm\<rparr>)"
      by (simp add: app_createChat_def Let_def)
    then show ?thesis by (simp add: Let_def createChat_frame)
  qed
  from keep app show ?thesis by blast
qed

theorem createChat_failed_save_keeps_chat_witness:
  "fst (app_createChat ''Team'' [] noon (alice_app (exhausted Map.empty))) =
     [AlertCreateChatFailed] \<and>
   chats (chatManager (snd (app_createChat ''Team'' [] noon (alice_app (exhausted Map.empty))))) =
     initializeChats @ [fst (createChat ''Team'' [] noon (chatManager (alice_app (exhausted Map.empty))))] \<and>
   storage (chatManager (snd (app_createChat ''Team'' [] noon (alice_app (exhausted Map.empty))))) =
     exhausted Map.empty"
proof -
  have t: "trim ''Team'' = ''Team''"
    by (simp add: trim_def WHITE_SPACE_def strip_all.simps)
  have pre: "trim ''Team'' \<noteq> [] \<and> currentUserKey (alice_app (exhausted Map.empty)) \<noteq> [] \<and>
    currentUser (alice_app (exhausted Map.empty)) \<noteq> [] \<and>
    \<not> quota (storage (chatManager (alice_app (exhausted Map.empty))))
        (USER_KEY_PREFIX @ currentUserKey (alice_app (exhausted Map.empty)))
        (profile_of (currentUser (alice_app (exhausted Map.empty)))
           (snd (createChat (trim ''Team'') [] noon (chatManager (alice_app (exhausted Map.empty))))))"
    by (simp add: t alice_app_def exhausted_def ChatManager_new_def)
  have c: "chats (chatManager (alice_app (exhausted Map.empty))) = initializeChats"
    and s: "storage (chatManager (alice_app (exhausted Map.empty))) = exhausted Map.empty"
    by (simp_all add: alice_app_def ChatManager_new_def)
  from createChat_failed_save_keeps_chat [of "''A''" "''alice''" "ChatManager_new (exhausted Map.empty)"
      SaveFailed "''Team''" "alice_app (exhausted Map.empty)" "[]" noon] pre
  show ?thesis unfolding Let_def t c s by blast
qed

subsection \<open>The username in a sent request\<close>

text \<open>
  C9. Alice (key A) sends a request to Bob, whose profile is stored under key B with the
  username \<^verbatim>\<open>bob\<close>. The call returns \<^verbatim>\<open>true\<close>, and the entry in Alice's sent requests
  carries Bob's key beside Alice's own username, not Bob's. The entry that the same call
  stores in Bob's incoming requests carries Alice's key beside Alice's username.
\<close>

theorem sendFriendRequest_records_own_name:
  "loadUserData ''B'' (storage (ChatManager_new (roomy (stored_under ''B'' (profile_named ''bob''))))) =
     Some (profile_named ''bob'') \<and>
   stored_username (profile_named ''bob'') = Some ''bob'' \<and>
   fst (sendFriendRequest ''B'' ''A'' ''alice'' noon
      (ChatManager_new (roomy (stored_under ''B'' (profile_named ''bob''))))) = Inr True \<and>
   sentFriendRequests (snd (sendFriendRequest ''B'' ''A'' ''alice'' noon
      (ChatManager_new (roomy (stored_under ''B'' (profile_named ''bob'')))))) =
     [\<lparr>key = ''B'', username = ''alice'', eventAt = toISOString noon\<rparr>] \<and>
   map_option stored_friendRequests (loadUserData ''B'' (storage (snd
      (sendFriendRequest ''B'' ''A'' ''alice'' noon
        (ChatManager_new (roomy (stored_under ''B'' (profile_named ''bob'')))))))) =
     Some (Some [\<lparr>key = ''A'', username = ''alice'', eventAt = toISOString noon\<rparr>])"
  by (simp add: sendFriendRequest_def ChatManager_new_def roomy_def stored_under_def
        loadUserData_def saveUserData_def profile_named_def no_fields_def Let_def or_else_def)

subsection \<open>Keys stay distinct\<close>

text \<open>
  The friends and the sent requests are sets by key: in every state a manager reaches,
  and in every profile it has stored, no key occurs twice in either list. Every push is
  behind a test for the key, and the only other writer filters.
\<close>

lemma distinct_keys_count:
  "distinct (map key xs) \<Longrightarrow> length (filter (\<lambda>f. key f = k) xs) \<le> 1"
  by (induction xs) (auto simp: filter_key_absent)

lemma addFriend_distinct:
  "distinct (map key (friends m)) \<Longrightarrow>
   distinct (map key (friends (snd (addFriend k u now m))))"
  by (auto simp: addFriend_def list_ex_iff)

lemma sendFriendRequest_distinct:
  "distinct (map key (sentFriendRequests m)) \<Longrightarrow>
   distinct (map key (sentFriendRequests (snd (sendFriendRequest t sk su now m))))"
proof (cases "t \<in> key ` set (sentFriendRequests m)")
  case True
  assume "distinct (map key (sentFriendRequests m))"
  with True show ?thesis by (simp add: sendFriendRequest_sent)
next
  case False
  assume "distinct (map key (sentFriendRequests m))"
  with False show ?thesis by (simp add: sendFriendRequest_pushes)
qed

lemma stored_distinct_loadUserData:
  "stored_distinct ls \<Longrightarrow> loadUserData k ls = Some d \<Longrightarrow>
   distinct (map key (or_else (stored_friends d) [])) \<and>
   distinct (map key (or_else (stored_sentFriendRequests d) []))"
  unfolding stored_distinct_def loadUserData_def
  by (auto split: option.splits item.splits)

lemma stored_distinct_saveUserData:
  "stored_distinct ls \<Longrightarrow> distinct (map key (or_else (stored_friends d) [])) \<Longrightarrow>
   distinct (map key (or_else (stored_sentFriendRequests d) [])) \<Longrightarrow>
   saveUserData k d ls = Inr ls' \<Longrightarrow> stored_distinct ls'"
  unfolding stored_distinct_def saveUserData_def
  by (auto split: if_splits)

lemma accepted_by_distinct:
  "distinct (map key (or_else (stored_friends d) [])) \<Longrightarrow>
   distinct (map key (or_else (stored_sentFriendRequests d) [])) \<Longrightarrow>
   distinct (map key (or_else (stored_friends (accepted_by sk su now d)) [])) \<and>
   distinct (map key (or_else (stored_sentFriendRequests (accepted_by sk su now d)) []))"
  by (cases "stored_sentFriendRequests d"; cases "stored_friends d")
     (auto simp: accepted_by_def Let_def or_else_def list_ex_iff distinct_map_filter)

lemma keys_distinct_first_load: "items ls = Map.empty \<Longrightarrow> keys_distinct (ChatManager_new ls)"
  by (simp add: keys_distinct_def ChatManager_new_def stored_distinct_def)

lemma keys_distinct_page_load: "keys_distinct m \<Longrightarrow> keys_distinct (ChatManager_new (storage m))"
  by (simp add: keys_distinct_def ChatManager_new_def)

lemma keys_distinct_quota:
  "keys_distinct m \<Longrightarrow> keys_distinct (m\<lparr>storage := (storage m)\<lparr>quota := q\<rparr>\<rparr>)"
  by (simp add: keys_distinct_def stored_distinct_def)

lemma keys_distinct_loadChats: "keys_distinct m \<Longrightarrow> keys_distinct (loadChats userKey m)"
proof (cases "loadUserData userKey (storage m)")
  case None
  assume "keys_distinct m"
  with None show ?thesis by (simp add: keys_distinct_def loadChats_def)
next
  case (Some d)
  assume k: "keys_distinct m"
  then have "stored_distinct (storage m)" by (simp add: keys_distinct_def)
  from stored_distinct_loadUserData [OF this Some] k show ?thesis
    by (simp add: keys_distinct_def loadChats_stored [OF Some])
qed

lemma keys_distinct_saveChats:
  "keys_distinct m \<Longrightarrow> keys_distinct (snd (saveChats userKey uname m))"
proof (cases "saveUserData userKey (profile_of uname m) (storage m)")
  case (Inl e)
  assume "keys_distinct m"
  with Inl show ?thesis by (simp add: saveChats_def)
next
  case (Inr ls)
  assume k: "keys_distinct m"
  then have "stored_distinct ls"
    using stored_distinct_saveUserData [of "storage m" "profile_of uname m" userKey ls] Inr
    by (simp add: keys_distinct_def profile_of_def or_else_def)
  with k Inr show ?thesis by (simp add: saveChats_def keys_distinct_def)
qed

lemma keys_distinct_chats: "keys_distinct m \<Longrightarrow> keys_distinct (m\<lparr>chats := cs\<rparr>)"
  by (simp add: keys_distinct_def)

lemma keys_distinct_createChat:
  "keys_distinct m \<Longrightarrow> keys_distinct (snd (createChat name description now m))"
  by (simp add: createChat_def Let_def keys_distinct_chats)

lemma keys_distinct_createPrivateChat:
  "keys_distinct m \<Longrightarrow> keys_distinct (snd (createPrivateChat fk fu sk now m))"
  by (simp add: createPrivateChat_def Let_def keys_distinct_chats)

lemma keys_distinct_addFriend:
  "keys_distinct m \<Longrightarrow> keys_distinct (snd (addFriend k u now m))"
  using addFriend_distinct [of m k u now]
  by (simp add: keys_distinct_def addFriend_frame)

lemma keys_distinct_addUserByKey:
  "keys_distinct m \<Longrightarrow> keys_distinct (snd (addUserByKey k u now m))"
  by (cases "loadUserData k (storage m)") (simp_all add: addUserByKey_def keys_distinct_addFriend)

lemma sendFriendRequest_frame:
  "friends (snd (sendFriendRequest t sk su now m)) = friends m"
  by (cases "loadUserData t (storage m)")
     (auto simp: sendFriendRequest_def Let_def split: sum.splits)

lemma sendFriendRequest_storage:
  "stored_distinct (storage m) \<Longrightarrow>
   stored_distinct (storage (snd (sendFriendRequest t sk su now m)))"
proof (cases "list_ex (\<lambda>req. key req = t) (sentFriendRequests m)")
  case True
  assume "stored_distinct (storage m)"
  with True show ?thesis by (simp add: sendFriendRequest_def)
next
  case False
  assume s: "stored_distinct (storage m)"
  show ?thesis
  proof (cases "loadUserData t (storage m)")
    case None
    with False s show ?thesis by (simp add: sendFriendRequest_def Let_def)
  next
    case (Some d)
    let ?d = "d\<lparr>stored_friendRequests := Some (or_else (stored_friendRequests d) [] @
                [\<lparr>key = sk, username = su, eventAt = toISOString now\<rparr>])\<rparr>"
    from stored_distinct_loadUserData [OF s Some]
    have d: "distinct (map key (or_else (stored_friends ?d) []))"
      "distinct (map key (or_else (stored_sentFriendRequests ?d) []))"
      by simp_all
    show ?thesis
    proof (cases "saveUserData t ?d (storage m)")
      case (Inl e)
      with False Some s show ?thesis by (simp add: sendFriendRequest_def Let_def)
    next
      case (Inr ls)
      from stored_distinct_saveUserData [OF s d Inr] False Some Inr show ?thesis
        by (simp add: sendFriendRequest_def Let_def)
    qed
  qed
qed

lemma keys_distinct_sendFriendRequest:
  "keys_distinct m \<Longrightarrow> keys_distinct (snd (sendFriendRequest t sk su now m))"
  using sendFriendRequest_distinct [of m t sk su now] sendFriendRequest_storage [of m t sk su now]
  by (simp add: keys_distinct_def sendFriendRequest_frame)

lemma keys_distinct_friendRequests: "keys_distinct m \<Longrightarrow> keys_distinct (m\<lparr>friendRequests := rs\<rparr>)"
  by (simp add: keys_distinct_def)

lemma keys_distinct_rejectFriendRequest:
  "keys_distinct m \<Longrightarrow> keys_distinct (rejectFriendRequest k m)"
  by (simp add: rejectFriendRequest_def keys_distinct_friendRequests)

lemma keys_distinct_acceptFriendRequest:
  assumes k: "keys_distinct m"
  shows "keys_distinct (snd (acceptFriendRequest rk ru sk su now m))"
proof -
  let ?m1 = "snd (addFriend rk ru now m)"
  let ?m2 = "?m1\<lparr>friendRequests := filter (\<lambda>req. key req \<noteq> rk) (friendRequests ?m1)\<rparr>"
  from k have k2: "keys_distinct ?m2"
    by (intro keys_distinct_friendRequests keys_distinct_addFriend)
  show ?thesis
  proof (cases "loadUserData rk (storage ?m2)")
    case None
    with k2 show ?thesis by (simp add: acceptFriendRequest_def Let_def)
  next
    case (Some d)
    from k2 have s: "stored_distinct (storage ?m2)" by (simp add: keys_distinct_def)
    from stored_distinct_loadUserData [OF s Some]
    have d: "distinct (map key (or_else (stored_friends (accepted_by sk su now d)) []))"
      "distinct (map key (or_else (stored_sentFriendRequests (accepted_by sk su now d)) []))"
      using accepted_by_distinct [of d sk su now] by simp_all
    show ?thesis
    proof (cases "saveUserData rk (accepted_by sk su now d) (storage ?m2)")
      case (Inl e)
      with Some k2 show ?thesis by (simp add: acceptFriendRequest_def Let_def)
    next
      case (Inr ls)
      from stored_distinct_saveUserData [OF s d Inr] have "stored_distinct ls" .
      with k2 have "keys_distinct (?m2\<lparr>storage := ls\<rparr>)" by (simp add: keys_distinct_def)
      with Some Inr show ?thesis by (simp add: acceptFriendRequest_def Let_def)
    qed
  qed
qed

lemma reachable_keys_distinct: "reachable m \<Longrightarrow> keys_distinct m"
proof (induction rule: reachable.induct)
  case (first_load ls)
  then show ?case by (rule keys_distinct_first_load)
next
  case (page_load m)
  then show ?case by (simp add: keys_distinct_page_load)
next
  case (quota_change m q)
  then show ?case by (simp add: keys_distinct_quota)
next
  case (loaded m userKey)
  then show ?case by (simp add: keys_distinct_loadChats)
next
  case (saved m userKey uname)
  then show ?case by (simp add: keys_distinct_saveChats)
next
  case (chat_created m name description now)
  then show ?case by (simp add: keys_distinct_createChat)
next
  case (private_chat_created m friendKey friendUsername selfKey now)
  then show ?case by (simp add: keys_distinct_createPrivateChat)
next
  case (message_added m i author body ty fileData fileName now)
  then show ?case by (simp add: keys_distinct_chats)
next
  case (friend_added m friendKey friendUsername now)
  then show ?case by (simp add: keys_distinct_addFriend)
next
  case (user_added m userKey uname now)
  then show ?case by (simp add: keys_distinct_addUserByKey)
next
  case (request_sent m targetKey selfKey selfUsername now)
  then show ?case by (simp add: keys_distinct_sendFriendRequest)
next
  case (request_accepted m requesterKey requesterUsername selfKey selfUsername now)
  then show ?case by (simp add: keys_distinct_acceptFriendRequest)
next
  case (request_rejected m requesterKey)
  then show ?case by (simp add: keys_distinct_rejectFriendRequest)
qed

lemma bob_registered_storage:
  "storage bob_registered =
     roomy (stored_under ''B''
       (profile_of ''bob'' ((ChatManager_new (roomy Map.empty))\<lparr>chats := initializeChats\<rparr>)))"
  by (simp add: bob_registered_def saveChats_def saveUserData_def loadUserData_def
        loadChats_def ChatManager_new_def roomy_def stored_under_def)

lemma alice_arrives_eq:
  "alice_arrives = (ChatManager_new (storage bob_registered))\<lparr>chats := initializeChats\<rparr>"
  by (simp add: alice_arrives_def bob_registered_storage loadChats_def loadUserData_def
        ChatManager_new_def roomy_def stored_under_def USER_KEY_PREFIX_def)

lemma alice_arrives_lists:
  "friends alice_arrives = [] \<and> sentFriendRequests alice_arrives = []"
  by (simp add: alice_arrives_eq ChatManager_new_def)

lemma alice_arrives_reachable: "reachable alice_arrives"
  unfolding alice_arrives_def bob_registered_def
  by (intro reachable.loaded reachable.page_load reachable.saved reachable.first_load)
     (simp add: roomy_def)

lemma bob_stored:
  "loadUserData ''B'' (storage alice_arrives) =
     Some (profile_of ''bob'' ((ChatManager_new (roomy Map.empty))\<lparr>chats := initializeChats\<rparr>)) \<and>
   quota (storage alice_arrives) = (\<lambda>k d. True)"
  by (simp add: alice_arrives_eq bob_registered_storage ChatManager_new_def roomy_def
        stored_under_def loadUserData_def)

subsection \<open>Adding a friend twice\<close>

text \<open>
  C5. \<^verbatim>\<open>addFriend\<close> is idempotent by key. For every friends list and every key \<open>k\<close>, the
  second of two calls with \<open>k\<close> returns \<^verbatim>\<open>false\<close> and changes nothing; when an entry with
  key \<open>k\<close> is there before, the first call returns \<^verbatim>\<open>false\<close> and changes nothing either,
  so the stored username stays and the name argument is ignored; when none is there, the
  first call returns \<^verbatim>\<open>true\<close> and appends the entry. The friends list is a set by key:
  when its keys are distinct, as they are in every state a manager reaches, exactly one
  entry with key \<open>k\<close> is left after the two calls.
\<close>

theorem addFriend_twice_one_entry:
  "(let r1 = addFriend k u now m; r2 = addFriend k u' now' (snd r1)
    in fst r2 = False \<and> snd r2 = snd r1 \<and>
       (k \<in> key ` set (friends m) \<longrightarrow> fst r1 = False \<and> snd r1 = m) \<and>
       (k \<notin> key ` set (friends m) \<longrightarrow>
          fst r1 = True \<and>
          friends (snd r1) =
            friends m @ [\<lparr>key = k, username = u, eventAt = toISOString now\<rparr>]) \<and>
       (distinct (map key (friends m)) \<longrightarrow>
          length (filter (\<lambda>f. key f = k) (friends (snd r2))) = 1) \<and>
       (reachable m \<longrightarrow> length (filter (\<lambda>f. key f = k) (friends (snd r2))) = 1))"
proof -
  let ?r1 = "addFriend k u now m"
  let ?r2 = "addFriend k u' now' (snd ?r1)"
  have second: "?r2 = (False, snd ?r1)"
    by (rule addFriend_known) (rule addFriend_has_key)
  have known: "k \<in> key ` set (friends m) \<longrightarrow> fst ?r1 = False \<and> snd ?r1 = m"
    by (simp add: addFriend_known)
  have unknown: "k \<notin> key ` set (friends m) \<longrightarrow>
      fst ?r1 = True \<and>
      friends (snd ?r1) = friends m @ [\<lparr>key = k, username = u, eventAt = toISOString now\<rparr>]"
    by (simp add: addFriend_unknown)
  have one: "length (filter (\<lambda>f. key f = k) (friends (snd ?r2))) = 1"
    if "distinct (map key (friends m))"
  proof -
    from that have "length (filter (\<lambda>f. key f = k) (friends m)) \<le> 1"
      by (rule distinct_keys_count)
    then have "length (filter (\<lambda>f. key f = k) (friends (snd ?r1))) = 1"
      by (rule addFriend_count)
    with second show ?thesis by simp
  qed
  have reached: "length (filter (\<lambda>f. key f = k) (friends (snd ?r2))) = 1" if "reachable m"
    using reachable_keys_distinct [OF that] one by (simp add: keys_distinct_def)
  from second known unknown one reached show ?thesis
    unfolding Let_def by simp
qed

theorem addFriend_twice_one_entry_witness:
  "fst (addFriend ''K'' ''new'' noon alice_arrives) = True \<and>
   friends (snd (addFriend ''K'' ''new'' noon alice_arrives)) =
     friends alice_arrives @ [\<lparr>key = ''K'', username = ''new'', eventAt = toISOString noon\<rparr>] \<and>
   fst (addFriend ''K'' ''newer'' noon (snd (addFriend ''K'' ''new'' noon alice_arrives))) = False \<and>
   snd (addFriend ''K'' ''newer'' noon (snd (addFriend ''K'' ''new'' noon alice_arrives))) =
     snd (addFriend ''K'' ''new'' noon alice_arrives) \<and>
   length (filter (\<lambda>f. key f = ''K'') (friends (snd
     (addFriend ''K'' ''newer'' noon (snd (addFriend ''K'' ''new'' noon alice_arrives)))))) = 1 \<and>
   fst (addFriend ''K'' ''new'' noon once_known) = False \<and>
   snd (addFriend ''K'' ''new'' noon once_known) = once_known \<and>
   map username (friends once_known) = [''old'']"
proof -
  note r = alice_arrives_reachable
  have absent: "''K'' \<notin> key ` set (friends alice_arrives)"
    by (simp add: alice_arrives_lists)
  have known: "''K'' \<in> key ` set (friends once_known)"
    by (simp add: once_known_def ChatManager_new_def ref_def)
  have name: "map username (friends once_known) = [''old'']"
    by (simp add: once_known_def ChatManager_new_def ref_def)
  from addFriend_twice_one_entry [of "''K''" "''new''" noon alice_arrives "''newer''" noon]
    addFriend_twice_one_entry [of "''K''" "''new''" noon once_known "''newer''" noon]
    r absent known name
  show ?thesis unfolding Let_def by blast
qed

subsection \<open>Sending a friend request twice\<close>

text \<open>
  C6. For every state, after \<^verbatim>\<open>sendFriendRequest\<close> a second call with the same arguments
  returns \<^verbatim>\<open>false\<close> and changes nothing, so it adds no duplicate; this holds whether the
  first call returned or threw. The first call appends the entry when the target's key is
  not among the sent requests and does nothing when it is. The sent requests are a set by
  key: when their keys are distinct, as they are in every state a manager reaches, exactly
  one entry with the target's key is left after the two calls.
\<close>

theorem sendFriendRequest_twice_one_entry:
  "(let r1 = sendFriendRequest t sk su now m; r2 = sendFriendRequest t sk su now' (snd r1)
    in fst r2 = Inr False \<and> snd r2 = snd r1 \<and>
       (t \<in> key ` set (sentFriendRequests m) \<longrightarrow> r1 = (Inr False, m)) \<and>
       (t \<notin> key ` set (sentFriendRequests m) \<longrightarrow>
          sentFriendRequests (snd r1) =
            sentFriendRequests m @ [\<lparr>key = t, username = su, eventAt = toISOString now\<rparr>]) \<and>
       (distinct (map key (sentFriendRequests m)) \<longrightarrow>
          length (filter (\<lambda>r. key r = t) (sentFriendRequests (snd r2))) = 1) \<and>
       (reachable m \<longrightarrow>
          length (filter (\<lambda>r. key r = t) (sentFriendRequests (snd r2))) = 1))"
proof -
  let ?r1 = "sendFriendRequest t sk su now m"
  let ?r2 = "sendFriendRequest t sk su now' (snd ?r1)"
  have second: "?r2 = (Inr False, snd ?r1)"
    by (rule sendFriendRequest_sent) (rule sendFriendRequest_has_key)
  have sent: "t \<in> key ` set (sentFriendRequests m) \<longrightarrow> ?r1 = (Inr False, m)"
    by (simp add: sendFriendRequest_sent)
  have unsent: "t \<notin> key ` set (sentFriendRequests m) \<longrightarrow>
      sentFriendRequests (snd ?r1) =
        sentFriendRequests m @ [\<lparr>key = t, username = su, eventAt = toISOString now\<rparr>]"
    by (simp add: sendFriendRequest_pushes)
  have one: "length (filter (\<lambda>r. key r = t) (sentFriendRequests (snd ?r2))) = 1"
    if "distinct (map key (sentFriendRequests m))"
  proof -
    from that have "length (filter (\<lambda>r. key r = t) (sentFriendRequests m)) \<le> 1"
      by (rule distinct_keys_count)
    then have "length (filter (\<lambda>r. key r = t) (sentFriendRequests (snd ?r1))) = 1"
      by (rule sendFriendRequest_count)
    with second show ?thesis by simp
  qed
  have reached: "length (filter (\<lambda>r. key r = t) (sentFriendRequests (snd ?r2))) = 1"
    if "reachable m"
    using reachable_keys_distinct [OF that] one by (simp add: keys_distinct_def)
  from second sent unsent one reached show ?thesis
    unfolding Let_def by simp
qed

theorem sendFriendRequest_twice_one_entry_witness:
  "fst (sendFriendRequest ''B'' ''A'' ''alice'' noon alice_arrives) = Inr True \<and>
   sentFriendRequests (snd (sendFriendRequest ''B'' ''A'' ''alice'' noon alice_arrives)) =
     sentFriendRequests alice_arrives @
       [\<lparr>key = ''B'', username = ''alice'', eventAt = toISOString noon\<rparr>] \<and>
   fst (sendFriendRequest ''B'' ''A'' ''alice'' noon
     (snd (sendFriendRequest ''B'' ''A'' ''alice'' noon alice_arrives))) = Inr False \<and>
   snd (sendFriendRequest ''B'' ''A'' ''alice'' noon
     (snd (sendFriendRequest ''B'' ''A'' ''alice'' noon alice_arrives))) =
     snd (sendFriendRequest ''B'' ''A'' ''alice'' noon alice_arrives) \<and>
   length (filter (\<lambda>r. key r = ''B'') (sentFriendRequests (snd
     (sendFriendRequest ''B'' ''A'' ''alice'' noon
       (snd (sendFriendRequest ''B'' ''A'' ''alice'' noon alice_arrives)))))) = 1"
proof -
  note r = alice_arrives_reachable
  have absent: "''B'' \<notin> key ` set (sentFriendRequests alice_arrives)"
    by (simp add: alice_arrives_lists)
  have first: "fst (sendFriendRequest ''B'' ''A'' ''alice'' noon alice_arrives) = Inr True"
    by (simp add: sendFriendRequest_def alice_arrives_lists bob_stored saveUserData_def Let_def)
  from sendFriendRequest_twice_one_entry [of "''B''" "''A''" "''alice''" noon alice_arrives noon]
    r absent first
  show ?thesis unfolding Let_def by blast
qed

end
